theory Spec2Isabelle
  imports Main "HOL-Library.Sublist"
begin

section \<open>Data model\<close>

type_synonym sql = string

text \<open>
  The cursor \<open>cur\<close> of \<open>dags/ETL_theLook_Postgres.py\<close> together with the part of the
  PostgreSQL store it talks to:
  \<^item> \<open>info_columns\<close>: the rows of \<open>information_schema.columns\<close>, each a triple
    (table_schema, table_name, column_name);
  \<^item> \<open>sent\<close>: every DDL text the program has passed to \<open>cur.execute\<close>, oldest first,
    whether the store took it or raised;
  \<^item> \<open>executed\<close>: those of them the store has accepted, oldest first;
  \<^item> \<open>rows\<close>: the result set of the last query, waiting for \<open>cur.fetchall()\<close>.
\<close>

record cursor =
  info_columns :: "(string \<times> string \<times> string) list"
  sent :: "sql list"
  executed :: "sql list"
  rows :: "string list list"

text \<open>
  Whether the store raises on a statement is not decided by the program: it is a parameter,
  \<open>rejects cur q = Some e\<close> when \<open>cur.execute(q)\<close> raises \<open>e\<close> in the state \<open>cur\<close>.
\<close>

type_synonym 'e rejection = "cursor \<Rightarrow> sql \<Rightarrow> 'e option"

section \<open>String helpers of Python\<close>

definition dq :: char where
  "dq = CHR 0x22"

text \<open>\<open>s.replace(old, new)\<close> for a pattern \<open>old\<close> of one character.\<close>

definition str_replace1 :: "char \<Rightarrow> string \<Rightarrow> string \<Rightarrow> string" where
  "str_replace1 old new s = concat (map (\<lambda>c. if c = old then new else [c]) s)"

text \<open>\<open>sub in s\<close> on strings: \<open>sub\<close> occurs in \<open>s\<close> as a contiguous block.\<close>

fun str_contains :: "string \<Rightarrow> string \<Rightarrow> bool" where
  "str_contains sub [] = (sub = [])"
| "str_contains sub (c # cs) = (prefix sub (c # cs) \<or> str_contains sub cs)"

section \<open>Identifier quoting\<close>

text \<open>
  \<^verbatim>\<open>def _identifier(name): return '"' + name.replace('"', '""') + '"'\<close>
\<close>

definition identifier_py :: "string \<Rightarrow> string" where
  "identifier_py name = [dq] @ str_replace1 dq [dq, dq] name @ [dq]"

text \<open>
  The reader on the other side: how SQL scans a delimited identifier at the head of a text.
  After the opening quote, a doubled quote stands for one quote character and a single quote
  closes the identifier; the result is the name and the text left over. A text that ends
  before the closing quote, and an identifier of length zero, are rejected.
\<close>

fun scan_quoted :: "string \<Rightarrow> (string \<times> string) option" where
  "scan_quoted [] = None"
| "scan_quoted [c] = (if c = dq then Some ([], []) else None)"
| "scan_quoted (c # d # ds) =
     (if c = dq then
        (if d = dq then map_option (\<lambda>(n, r). (dq # n, r)) (scan_quoted ds)
         else Some ([], d # ds))
      else map_option (\<lambda>(n, r). (c # n, r)) (scan_quoted (d # ds)))"

definition parse_identifier :: "string \<Rightarrow> (string \<times> string) option" where
  "parse_identifier s =
     (case s of
        [] \<Rightarrow> None
      | c # cs \<Rightarrow>
          if c = dq then
            (case scan_quoted cs of
               None \<Rightarrow> None
             | Some (n, r) \<Rightarrow> if n = [] then None else Some (n, r))
          else None)"

section \<open>Schema inspector\<close>

text \<open>
  \<^verbatim>\<open>cur.execute("SELECT column_name FROM information_schema.columns
               WHERE table_schema = %s AND table_name = %s", (schema, table))\<close>
  leaves one row of one field for every catalogue row of that schema and table.
\<close>

definition cur_execute_select_columns :: "cursor \<Rightarrow> string \<Rightarrow> string \<Rightarrow> cursor" where
  "cur_execute_select_columns cur schema table =
     cur\<lparr>rows := map (\<lambda>(s, t, c). [c])
                    (filter (\<lambda>(s, t, c). s = schema \<and> t = table) (info_columns cur))\<rparr>"

definition cur_fetchall :: "cursor \<Rightarrow> string list list \<times> cursor" where
  "cur_fetchall cur = (rows cur, cur\<lparr>rows := []\<rparr>)"

text \<open>\<^verbatim>\<open>return {r[0] for r in cur.fetchall()}\<close>\<close>

definition table_columns :: "cursor \<Rightarrow> string \<Rightarrow> string \<Rightarrow> string set \<times> cursor" where
  "table_columns cur schema table =
     (let cur1 = cur_execute_select_columns cur schema table;
          (rs, cur2) = cur_fetchall cur1
      in ((\<lambda>r. r ! 0) ` set rs, cur2))"

section \<open>View synthesizer\<close>

text \<open>
  \<open>cur.execute(q)\<close> for a DDL text: the text is sent; either the store raises, and the
  exception is the result, or the store executes the text.
\<close>

definition cur_execute :: "'e rejection \<Rightarrow> cursor \<Rightarrow> sql \<Rightarrow> cursor \<times> ('e + unit)" where
  "cur_execute rejects cur q =
     (case rejects cur q of
        Some e \<Rightarrow> (cur\<lparr>sent := sent cur @ [q]\<rparr>, Inl e)
      | None \<Rightarrow> (cur\<lparr>sent := sent cur @ [q], executed := executed cur @ [q]\<rparr>, Inr ()))"

text \<open>The two bare drops, lines 202, 203 and 253 of the source.\<close>

definition drop_kpi_daily_sql :: sql where
  "drop_kpi_daily_sql = ''DROP VIEW IF EXISTS analytics.kpi_daily;''"

definition drop_category_daily_sql :: sql where
  "drop_category_daily_sql = ''DROP VIEW IF EXISTS analytics.category_daily;''"

text \<open>
  The template of lines 212 to 224 after \<open>.format(date_expr=..., orders_expr=...,
  items_expr=..., revenue_expr=...)\<close>: every character of the triple-quoted text, with the
  four fields put in place.
\<close>

definition kpi_daily_order_items_sql :: "sql \<Rightarrow> sql \<Rightarrow> sql \<Rightarrow> sql \<Rightarrow> sql" where
  "kpi_daily_order_items_sql date_expr orders_expr items_expr revenue_expr =
     ''\<newline>'' @
     ''                        DROP VIEW IF EXISTS analytics.kpi_daily;\<newline>'' @
     ''                        CREATE VIEW analytics.kpi_daily AS\<newline>'' @
     ''                        SELECT\<newline>'' @
     ''                            '' @
     date_expr @
     '' AS order_date,\<newline>'' @
     ''                            '' @
     orders_expr @
     '' AS orders,\<newline>'' @
     ''                            '' @
     items_expr @
     '' AS items,\<newline>'' @
     ''                            '' @
     revenue_expr @
     '' AS revenue,\<newline>'' @
     ''                            CASE WHEN '' @
     orders_expr @
     '' > 0 THEN '' @
     revenue_expr @
     '' / '' @
     orders_expr @
     '' ELSE NULL END AS aov\<newline>'' @
     ''                        FROM raw.order_items AS order_items\<newline>'' @
     ''                        GROUP BY 1\<newline>'' @
     ''                        ORDER BY 1;\<newline>'' @
     ''                    ''"

text \<open>The template of lines 226 to 235 after \<open>.format(date_expr=...)\<close>.\<close>

definition kpi_daily_orders_sql :: "sql \<Rightarrow> sql" where
  "kpi_daily_orders_sql date_expr =
     ''\<newline>'' @
     ''                        DROP VIEW IF EXISTS analytics.kpi_daily;\<newline>'' @
     ''                        CREATE VIEW analytics.kpi_daily AS\<newline>'' @
     ''                        SELECT\<newline>'' @
     ''                            '' @
     date_expr @
     '' AS order_date,\<newline>'' @
     ''                            COUNT(*) AS orders\<newline>'' @
     ''                        FROM raw.orders AS orders\<newline>'' @
     ''                        GROUP BY 1\<newline>'' @
     ''                        ORDER BY 1;\<newline>'' @
     ''                    ''"

text \<open>The text of lines 239 to 251.\<close>

definition category_daily_sql :: sql where
  "category_daily_sql =
     ''\<newline>'' @
     ''                        DROP VIEW IF EXISTS analytics.category_daily;\<newline>'' @
     ''                        CREATE VIEW analytics.category_daily AS\<newline>'' @
     ''                        SELECT\<newline>'' @
     ''                            DATE(oi.created_at::timestamp) AS order_date,\<newline>'' @
     ''                            p.category AS category,\<newline>'' @
     ''                            COUNT(*) AS items,\<newline>'' @
     ''                            SUM(COALESCE(oi.sale_price::numeric, 0)) AS revenue\<newline>'' @
     ''                        FROM raw.order_items oi\<newline>'' @
     ''                        JOIN raw.products p ON p.id = oi.product_id\<newline>'' @
     ''                        GROUP BY 1,2\<newline>'' @
     ''                        ORDER BY 1,2;\<newline>'' @
     ''                    ''"

text \<open>Lines 206 to 208: the metric expressions, chosen by the columns of order_items.\<close>

definition revenue_expr :: "string set \<Rightarrow> sql" where
  "revenue_expr oi_cols =
     (if ''sale_price'' \<in> oi_cols then ''SUM(COALESCE(order_items.sale_price::numeric, 0))''
      else ''COUNT(*)::numeric'')"

definition orders_expr :: "string set \<Rightarrow> sql" where
  "orders_expr oi_cols =
     (if ''order_id'' \<in> oi_cols then ''COUNT(DISTINCT order_items.order_id)''
      else ''COUNT(*)'')"

definition items_expr :: sql where
  "items_expr = ''COUNT(*)''"

text \<open>
  Lines 206 to 255: what \<open>build_kpi_views\<close> does once \<open>date_expr\<close> and \<open>from_sql\<close> are chosen.
  An exception of \<open>cur.execute\<close> leaves the function at once.
\<close>

definition create_views ::
  "'e rejection \<Rightarrow> cursor \<Rightarrow> string set \<Rightarrow> string set \<Rightarrow> sql \<Rightarrow> sql \<Rightarrow> cursor \<times> ('e + string)"
where
  "create_views rejects cur oi_cols p_cols date_expr from_sql =
     (case (if str_contains ''order_items'' from_sql
            then cur_execute rejects cur
                   (kpi_daily_order_items_sql date_expr (orders_expr oi_cols) items_expr
                      (revenue_expr oi_cols))
            else cur_execute rejects cur (kpi_daily_orders_sql date_expr)) of
        (cur1, Inl e) \<Rightarrow> (cur1, Inl e)
      | (cur1, Inr _) \<Rightarrow>
          (case (if ''product_id'' \<in> oi_cols \<and> ''id'' \<in> p_cols \<and> ''category'' \<in> p_cols \<and>
                    ''sale_price'' \<in> oi_cols
                 then cur_execute rejects cur1 category_daily_sql
                 else cur_execute rejects cur1 drop_category_daily_sql) of
             (cur2, Inl e) \<Rightarrow> (cur2, Inl e)
           | (cur2, Inr _) \<Rightarrow>
               (cur2, Inr (''Views created: analytics.kpi_daily '' @
                           ''(and analytics.category_daily if columns exist).''))))"

text \<open>
  Lines 180 to 255. The result is the cursor as the call leaves it and either the exception
  that escaped (\<open>Inl\<close>) or the returned message (\<open>Inr\<close>).
\<close>

definition build_kpi_views :: "'e rejection \<Rightarrow> cursor \<Rightarrow> cursor \<times> ('e + string)" where
  "build_kpi_views rejects cur =
     (let (oi_cols, cur1) = (if True then table_columns cur ''raw'' ''order_items'' else ({}, cur));
          (o_cols, cur2) = (if True then table_columns cur1 ''raw'' ''orders'' else ({}, cur1));
          (p_cols, cur3) = (if True then table_columns cur2 ''raw'' ''products'' else ({}, cur2))
      in if ''created_at'' \<in> oi_cols then
           create_views rejects cur3 oi_cols p_cols
             ''DATE(order_items.created_at::timestamp)'' ''raw.order_items AS order_items''
         else if ''created_at'' \<in> o_cols then
           create_views rejects cur3 oi_cols p_cols
             ''DATE(orders.created_at::timestamp)'' ''raw.orders AS orders''
         else
           (case cur_execute rejects cur3 drop_kpi_daily_sql of
              (cur4, Inl e) \<Rightarrow> (cur4, Inl e)
            | (cur4, Inr _) \<Rightarrow>
                (case cur_execute rejects cur4 drop_category_daily_sql of
                   (cur5, Inl e) \<Rightarrow> (cur5, Inl e)
                 | (cur5, Inr _) \<Rightarrow>
                     (cur5, Inr ''No created_at column found; skipped KPI views.''))))"

section \<open>Identifier quoting: properties\<close>

lemma scan_quoted_replace:
  assumes "rest = [] \<or> hd rest \<noteq> dq"
  shows "scan_quoted (str_replace1 dq [dq, dq] name @ dq # rest) = Some (name, rest)"
proof (induction name)
  case Nil
  from assms show ?case
    by (cases rest) (simp_all add: str_replace1_def)
next
  case (Cons c name)
  have step: "str_replace1 dq [dq, dq] (c # name) =
      (if c = dq then [dq, dq] else [c]) @ str_replace1 dq [dq, dq] name"
    by (simp add: str_replace1_def)
  show ?case
  proof (cases "c = dq")
    case True
    with Cons step show ?thesis by simp
  next
    case False
    obtain x xs where shape: "str_replace1 dq [dq, dq] name @ dq # rest = x # xs"
      by (cases "str_replace1 dq [dq, dq] name @ dq # rest") simp_all
    with Cons False step show ?thesis by simp
  qed
qed

text \<open>
  C7. For every name, \<open>identifier_py\<close> (the source's \<open>_identifier\<close>) yields a text that
  opens and closes with a double quote and holds the name in between with each double quote doubled; scanning that text as a
  delimited identifier, in front of any text that does not itself begin with a double
  quote, gives back exactly the name (of length at least one) and the text that followed.
\<close>

theorem identifier_roundtrip:
  "identifier_py name = dq # concat (map (\<lambda>c. if c = dq then [dq, dq] else [c]) name) @ [dq] \<and>
   (name \<noteq> [] \<longrightarrow> (rest = [] \<or> hd rest \<noteq> dq) \<longrightarrow>
      parse_identifier (identifier_py name @ rest) = Some (name, rest))"
proof (intro conjI impI)
  show "identifier_py name = dq # concat (map (\<lambda>c. if c = dq then [dq, dq] else [c]) name) @ [dq]"
    by (simp add: identifier_py_def str_replace1_def)
next
  assume ne: "name \<noteq> []" and r: "rest = [] \<or> hd rest \<noteq> dq"
  have "identifier_py name @ rest = dq # (str_replace1 dq [dq, dq] name @ dq # rest)"
    by (simp add: identifier_py_def)
  with scan_quoted_replace [OF r, of name] ne
  show "parse_identifier (identifier_py name @ rest) = Some (name, rest)"
    by (simp add: parse_identifier_def)
qed

theorem identifier_roundtrip_witness:
  "[CHR ''a'', dq, CHR '' '', CHR ''b''] \<noteq> [] \<and> hd '' TEXT'' \<noteq> dq \<and>
   parse_identifier (identifier_py [CHR ''a'', dq, CHR '' '', CHR ''b''] @ '' TEXT'') =
     Some ([CHR ''a'', dq, CHR '' '', CHR ''b''], '' TEXT'')"
proof -
  have ne: "[CHR ''a'', dq, CHR '' '', CHR ''b''] \<noteq> []"
    by simp
  have tail: "hd '' TEXT'' \<noteq> dq"
    by (simp add: dq_def)
  have "parse_identifier (identifier_py [CHR ''a'', dq, CHR '' '', CHR ''b''] @ '' TEXT'') =
      Some ([CHR ''a'', dq, CHR '' '', CHR ''b''], '' TEXT'')"
    by (rule identifier_roundtrip [THEN conjunct2, rule_format, OF ne disjI2 [OF tail]])
  with ne tail show ?thesis by blast
qed

end
